theory Spec2Isabelle
  imports Main "HOL-Library.Multiset"
begin

section \<open>Text\<close>

text \<open>
  A Python \<open>str\<close> is a sequence of code points; it is modelled as a list of naturals.
  ASCII literals of the source are written through \<open>u\<close>.
\<close>

type_synonym ustr = "nat list"

definition u :: "string \<Rightarrow> ustr" where
  "u s = map of_char s"

text \<open>
  \<open>str.isspace\<close> of one code point: the characters \<open>str.strip()\<close> removes when it is
  called without an argument.
\<close>

definition py_isspace :: "nat \<Rightarrow> bool" where
  "py_isspace c \<longleftrightarrow>
     (9 \<le> c \<and> c \<le> 13) \<or> (28 \<le> c \<and> c \<le> 32) \<or> c = 133 \<or> c = 160 \<or> c = 5760 \<or>
     (8192 \<le> c \<and> c \<le> 8202) \<or> c = 8232 \<or> c = 8233 \<or> c = 8239 \<or> c = 8287 \<or> c = 12288"

definition py_strip :: "ustr \<Rightarrow> ustr" where
  "py_strip s = rev (dropWhile py_isspace (rev (dropWhile py_isspace s)))"

section \<open>Exceptions\<close>

text \<open>
  Only subclasses of \<open>Exception\<close> are modelled: they are what the two handlers of the
  source (\<open>except (AttributeError, ValueError)\<close> and \<open>except Exception\<close>) name.
\<close>

datatype exc_class =
    AttributeError | ValueError | HTTPError | ConnectionError | Timeout
  | FileExistsError | IsADirectoryError | UnicodeEncodeError | OtherException

datatype py_exception = PyExc exc_class ustr

fun exc_class_of :: "py_exception \<Rightarrow> exc_class" where
  "exc_class_of (PyExc c m) = c"

fun exc_str :: "py_exception \<Rightarrow> ustr" where
  "exc_str (PyExc c m) = m"

section \<open>The builtin \<open>int\<close> on strings\<close>

text \<open>
  The decimal digits of Unicode (category Nd, Unicode 14) come in runs of ten, 0 to 9;
  the list holds the code point of each zero.
\<close>

definition decimal_zeros :: "nat list" where
  "decimal_zeros =
    [48, 1632, 1776, 1984, 2406, 2534, 2662, 2790, 2918, 3046, 3174, 3302, 3430, 3558,
     3664, 3792, 3872, 4160, 4240, 6112, 6160, 6470, 6608, 6784, 6800, 6992, 7088, 7232,
     7248, 42528, 43216, 43264, 43472, 43504, 43600, 44016, 65296, 66720, 68912, 69734,
     69872, 69942, 70096, 70384, 70736, 70864, 71248, 71360, 71472, 71904, 72016, 72784,
     73040, 73120, 92768, 92864, 93008, 120782, 120792, 120802, 120812, 120822, 123200,
     123632, 125264, 130032]"

definition py_decimal :: "nat \<Rightarrow> nat option" where
  "py_decimal c =
     (case find (\<lambda>z. z \<le> c \<and> c < z + 10) decimal_zeros of
        None \<Rightarrow> None
      | Some z \<Rightarrow> Some (c - z))"

text \<open>
  The whitespace \<open>int\<close> skips around the numeral: ASCII whitespace proper, and the
  whitespace beyond ASCII (the separators 28 to 31 are not skipped).
\<close>

definition int_space :: "nat \<Rightarrow> bool" where
  "int_space c \<longleftrightarrow> py_isspace c \<and> \<not> (28 \<le> c \<and> c \<le> 31)"

text \<open>Digits after the first one: single underscores may separate digits.\<close>

fun int_digits :: "nat \<Rightarrow> ustr \<Rightarrow> nat option" where
  "int_digits acc [] = Some acc"
| "int_digits acc (c # cs) =
     (if c = 95 then
        (case cs of
           [] \<Rightarrow> None
         | d # ds \<Rightarrow>
             (case py_decimal d of
                None \<Rightarrow> None
              | Some v \<Rightarrow> int_digits (acc * 10 + v) ds))
      else
        (case py_decimal c of
           None \<Rightarrow> None
         | Some v \<Rightarrow> int_digits (acc * 10 + v) cs))"

definition int_magnitude :: "ustr \<Rightarrow> nat option" where
  "int_magnitude s =
     (case s of
        [] \<Rightarrow> None
      | c # cs \<Rightarrow>
          (case py_decimal c of
             None \<Rightarrow> None
           | Some v \<Rightarrow> int_digits v cs))"

definition int_signed :: "ustr \<Rightarrow> int option" where
  "int_signed s =
     (case s of
        [] \<Rightarrow> None
      | c # cs \<Rightarrow>
          if c = 45 then map_option (\<lambda>n. - int n) (int_magnitude cs)
          else if c = 43 then map_option int (int_magnitude cs)
          else map_option int (int_magnitude s))"

text \<open>
  \<open>int(s)\<close> in base ten. Python integers are unbounded; the interpreter's optional
  limit on the number of digits of a numeral is not modelled.
\<close>

definition py_int :: "ustr \<Rightarrow> py_exception + int" where
  "py_int s =
     (case int_signed (rev (dropWhile int_space (rev (dropWhile int_space s)))) of
        None \<Rightarrow> Inl (PyExc ValueError (u ''invalid literal for int() with base 10''))
      | Some n \<Rightarrow> Inr n)"

section \<open>The document tree\<close>

text \<open>
  The tree that \<open>BeautifulSoup(html, "html.parser")\<close> builds: text nodes, and elements
  with a tag name, the tokens of the \<open>class\<close> attribute (which the library keeps as a
  list), the other attributes (each a string) and the children. The root of the tree is
  an element itself. A text node is a string that \<open>.text\<close> collects; comments and the
  contents of \<open>script\<close>, \<open>style\<close> and \<open>template\<close> elements, which \<open>.text\<close> passes
  over, are not nodes of the model.
\<close>

datatype node =
    Text ustr
  | Element ustr "ustr list" "(ustr \<times> ustr) list" "node list"

text \<open>The descendants of a node in document order; the node itself is not among them.\<close>

fun descendants :: "node \<Rightarrow> node list"
  and descendants_list :: "node list \<Rightarrow> node list" where
  "descendants (Text s) = []"
| "descendants (Element nm cl at ch) = descendants_list ch"
| "descendants_list [] = []"
| "descendants_list (c # cs) = (c # descendants c) @ descendants_list cs"

text \<open>\<open>tag.text\<close>: the strings below a node, concatenated in document order.\<close>

fun get_text :: "node \<Rightarrow> ustr"
  and get_text_list :: "node list \<Rightarrow> ustr" where
  "get_text (Text s) = s"
| "get_text (Element nm cl at ch) = get_text_list ch"
| "get_text_list [] = []"
| "get_text_list (c # cs) = get_text c @ get_text_list cs"

text \<open>A selector \<open>tag.class\<close>, as all five selectors of the source are.\<close>

fun matches :: "ustr \<Rightarrow> ustr \<Rightarrow> node \<Rightarrow> bool" where
  "matches tg cls (Text s) = False"
| "matches tg cls (Element nm cl at ch) = (nm = tg \<and> cls \<in> set cl)"

definition select :: "ustr \<Rightarrow> ustr \<Rightarrow> node \<Rightarrow> node list" where
  "select tg cls root = filter (matches tg cls) (descendants root)"

definition select_one :: "ustr \<Rightarrow> ustr \<Rightarrow> node \<Rightarrow> node option" where
  "select_one tg cls root =
     (case select tg cls root of [] \<Rightarrow> None | n # ns \<Rightarrow> Some n)"

text \<open>The attributes of a tag, as the dictionary \<open>tag.attrs\<close>.\<close>

fun tag_attrs :: "node \<Rightarrow> (ustr \<rightharpoonup> ustr)" where
  "tag_attrs (Text s) = Map.empty"
| "tag_attrs (Element nm cl at ch) = map_of at"

definition has_attr :: "node \<Rightarrow> ustr \<Rightarrow> bool" where
  "has_attr t k \<longleftrightarrow> tag_attrs t k \<noteq> None"

section \<open>The extractor\<close>

record HotSearchItem =
  rank :: int
  title :: ustr
  summary :: ustr
  hot_score :: ustr
  detail_url :: ustr

text \<open>
  Line 75: \<open>int(card.select_one("div.index_1Ew5p").text.strip())\<close>. Reading \<open>.text\<close> of
  \<open>None\<close> raises \<open>AttributeError\<close>, \<open>int\<close> raises \<open>ValueError\<close>.
\<close>

definition card_rank :: "node \<Rightarrow> py_exception + int" where
  "card_rank crd =
     (case select_one (u ''div'') (u ''index_1Ew5p'') crd of
        None \<Rightarrow> Inl (PyExc AttributeError (u ''NoneType object has no attribute text''))
      | Some t \<Rightarrow> py_int (py_strip (get_text t)))"

text \<open>Lines 80 to 95.\<close>

definition tag_text :: "node option \<Rightarrow> ustr" where
  "tag_text tag = (case tag of None \<Rightarrow> [] | Some t \<Rightarrow> py_strip (get_text t))"

text \<open>
  \<open>tag["href"]\<close> is read only under \<open>tag.has_attr("href")\<close>, so the subscript
  finds the key; the branch for a missing key is the \<open>else\<close> of the source.
\<close>

definition link_href :: "node option \<Rightarrow> ustr" where
  "link_href tag =
     (case tag of
        None \<Rightarrow> []
      | Some t \<Rightarrow>
          if has_attr t (u ''href'')
          then (case tag_attrs t (u ''href'') of None \<Rightarrow> [] | Some v \<Rightarrow> py_strip v)
          else [])"

definition card_item :: "int \<Rightarrow> node \<Rightarrow> HotSearchItem" where
  "card_item r crd =
     \<lparr> rank = r,
       title = tag_text (select_one (u ''div'') (u ''c-single-text-ellipsis'') crd),
       summary = tag_text (select_one (u ''div'') (u ''hot-desc_1m_jR'') crd),
       hot_score = tag_text (select_one (u ''div'') (u ''hot-index_1Bl1a'') crd),
       detail_url = link_href (select_one (u ''a'') (u ''c-single-text-ellipsis'') crd) \<rparr>"

text \<open>
  The loop of lines 73 to 96. The handler catches \<open>AttributeError\<close> and \<open>ValueError\<close>
  and goes on with the next card; any other exception would leave the function.
\<close>

fun parse_cards :: "node list \<Rightarrow> HotSearchItem list \<Rightarrow> py_exception + HotSearchItem list" where
  "parse_cards [] items = Inr items"
| "parse_cards (crd # cards) items =
     (case card_rank crd of
        Inl e \<Rightarrow>
          if exc_class_of e = AttributeError \<or> exc_class_of e = ValueError
          then parse_cards cards items
          else Inl e
      | Inr r \<Rightarrow> parse_cards cards (items @ [card_item r crd]))"

text \<open>
  \<open>parse_hot_search\<close>. The tree builder is a library; it is a parameter, and it may
  raise. \<open>list.sort(key=...)\<close> is a stable sort, as \<open>sort_key\<close> is.
\<close>

text \<open>What one card adds to the list: the loop body read as a function.\<close>

definition card_entries :: "node \<Rightarrow> HotSearchItem list" where
  "card_entries crd = (case card_rank crd of Inl e \<Rightarrow> [] | Inr r \<Rightarrow> [card_item r crd])"

definition select_cards :: "node \<Rightarrow> node list" where
  "select_cards soup = select (u ''div'') (u ''category-wrap_iQLoo'') soup"

definition parse_hot_search ::
  "(ustr \<Rightarrow> py_exception + node) \<Rightarrow> ustr \<Rightarrow> py_exception + HotSearchItem list" where
  "parse_hot_search BeautifulSoup html =
     (case BeautifulSoup html of
        Inl e \<Rightarrow> Inl e
      | Inr soup \<Rightarrow>
          (case parse_cards (select_cards soup) [] of
             Inl e \<Rightarrow> Inl e
           | Inr items \<Rightarrow> Inr (sort_key rank items)))"

section \<open>Numbers and dates as text\<close>

text \<open>
  \<open>str\<close> of an integer: its decimal numeral. As for \<open>int\<close>, the interpreter's limit on
  the number of digits is not modelled.
\<close>

fun show_nat :: "nat \<Rightarrow> ustr" where
  "show_nat n = (if n < 10 then [48 + n] else show_nat (n div 10) @ [48 + n mod 10])"

definition show_int :: "int \<Rightarrow> ustr" where
  "show_int i = (if i < 0 then 45 # show_nat (nat (- i)) else show_nat (nat i))"

definition zfill :: "nat \<Rightarrow> ustr \<Rightarrow> ustr" where
  "zfill w s = replicate (w - length s) 48 @ s"

text \<open>
  The value of \<open>datetime.now(timezone(timedelta(hours=8)))\<close>: civil time at the fixed
  offset of eight hours.
\<close>

record datetime =
  year :: nat
  month :: nat
  day :: nat
  hour :: nat
  minute :: nat
  second :: nat
  microsecond :: nat

definition isoformat :: "datetime \<Rightarrow> ustr" where
  "isoformat t =
     zfill 4 (show_nat (year t)) @ u ''-'' @ zfill 2 (show_nat (month t)) @ u ''-'' @
     zfill 2 (show_nat (day t)) @ u ''T'' @ zfill 2 (show_nat (hour t)) @ u '':'' @
     zfill 2 (show_nat (minute t)) @ u '':'' @ zfill 2 (show_nat (second t)) @
     (if microsecond t = 0 then [] else u ''.'' @ zfill 6 (show_nat (microsecond t))) @
     u ''+08:00''"

text \<open>\<open>timestamp.strftime("%Y%m%d")\<close>, for a clock whose year has four digits.\<close>

definition strftime_Ymd :: "datetime \<Rightarrow> ustr" where
  "strftime_Ymd t =
     zfill 4 (show_nat (year t)) @ zfill 2 (show_nat (month t)) @ zfill 2 (show_nat (day t))"

section \<open>JSON text\<close>

text \<open>The values the snapshot is made of: integers, strings, lists and dictionaries.\<close>

datatype json =
    JInt int
  | JStr ustr
  | JArr "json list"
  | JObj "(ustr \<times> json) list"

text \<open>\<open>asdict(item)\<close>: the fields in the order of their declaration.\<close>

definition asdict :: "HotSearchItem \<Rightarrow> json" where
  "asdict item =
     JObj [(u ''rank'', JInt (rank item)),
           (u ''title'', JStr (title item)),
           (u ''summary'', JStr (summary item)),
           (u ''hot_score'', JStr (hot_score item)),
           (u ''detail_url'', JStr (detail_url item))]"

definition payload :: "datetime \<Rightarrow> HotSearchItem list \<Rightarrow> json" where
  "payload t items =
     JObj [(u ''generated_at'', JStr (isoformat t)),
           (u ''items'', JArr (map asdict items))]"

text \<open>
  String literals of \<open>json.dump(..., ensure_ascii=False)\<close>: the quote (34), the
  backslash (92) and the control characters below 32 are escaped, every other code point
  is written as it is.
\<close>

definition hex_digit :: "nat \<Rightarrow> nat" where
  "hex_digit d = (if d < 10 then 48 + d else 87 + d)"

definition escape_char :: "nat \<Rightarrow> ustr" where
  "escape_char c =
     (if c = 34 then [92, 34]
      else if c = 92 then [92, 92]
      else if c = 10 then [92, 110]
      else if c = 13 then [92, 114]
      else if c = 9 then [92, 116]
      else if c = 8 then [92, 98]
      else if c = 12 then [92, 102]
      else if c < 32 then [92, 117, 48, 48, hex_digit (c div 16), hex_digit (c mod 16)]
      else [c])"

definition encode_string :: "ustr \<Rightarrow> ustr" where
  "encode_string s = 34 # concat (map escape_char s) @ [34]"

text \<open>
  The encoder with \<open>indent=2\<close>: a line break and two spaces per level before each
  element, \<open>,\<close> between elements and \<open>: \<close> after a key; empty containers are
  \<open>[]\<close> and \<open>{}\<close>.
\<close>

definition newline_indent :: "nat \<Rightarrow> ustr" where
  "newline_indent lvl = 10 # replicate (2 * lvl) 32"

fun encode :: "nat \<Rightarrow> json \<Rightarrow> ustr"
  and encode_list :: "nat \<Rightarrow> json list \<Rightarrow> ustr"
  and encode_dict :: "nat \<Rightarrow> (ustr \<times> json) list \<Rightarrow> ustr" where
  "encode lvl (JInt i) = show_int i"
| "encode lvl (JStr s) = encode_string s"
| "encode lvl (JArr xs) =
     (if xs = [] then u ''[]''
      else u ''['' @ newline_indent (lvl + 1) @ encode_list (lvl + 1) xs @
           newline_indent lvl @ u '']'')"
| "encode lvl (JObj kvs) =
     (if kvs = [] then u ''{}''
      else u ''{'' @ newline_indent (lvl + 1) @ encode_dict (lvl + 1) kvs @
           newline_indent lvl @ u ''}'')"
| "encode_list lvl [] = []"
| "encode_list lvl (x # xs) =
     encode lvl x @ (if xs = [] then [] else u '','' @ newline_indent lvl @ encode_list lvl xs)"
| "encode_dict lvl [] = []"
| "encode_dict lvl ((k, v) # kvs) =
     encode_string k @ u '': '' @ encode lvl v @
     (if kvs = [] then [] else u '','' @ newline_indent lvl @ encode_dict lvl kvs)"

definition json_dumps :: "json \<Rightarrow> ustr" where
  "json_dumps v = encode 0 v"

section \<open>JSON text, read back\<close>















section \<open>UTF-8\<close>

text \<open>
  The bytes of one code point; the surrogates (55296 to 57343) have none, and encoding a
  string that holds one raises \<open>UnicodeEncodeError\<close>.
\<close>

definition utf8_char :: "nat \<Rightarrow> nat list option" where
  "utf8_char c =
     (if c < 128 then Some [c]
      else if c < 2048 then Some [192 + c div 64, 128 + c mod 64]
      else if 55296 \<le> c \<and> c \<le> 57343 then None
      else if c < 65536 then Some [224 + c div 4096, 128 + (c div 64) mod 64, 128 + c mod 64]
      else if c < 1114112 then
        Some [240 + c div 262144, 128 + (c div 4096) mod 64, 128 + (c div 64) mod 64,
              128 + c mod 64]
      else None)"

fun utf8_encode :: "ustr \<Rightarrow> nat list option" where
  "utf8_encode [] = Some []"
| "utf8_encode (c # cs) =
     (case utf8_char c of
        None \<Rightarrow> None
      | Some b \<Rightarrow> (case utf8_encode cs of None \<Rightarrow> None | Some bs \<Rightarrow> Some (b @ bs)))"

text \<open>The strings UTF-8 can encode: those without surrogates.\<close>

definition encodable :: "ustr \<Rightarrow> bool" where
  "encodable s \<longleftrightarrow> (\<forall>c \<in> set s. c < 55296 \<or> (57343 < c \<and> c < 1114112))"

section \<open>The snapshotter\<close>

text \<open>
  The filesystem below the working directory: the directories, and the bytes of each
  regular file.
\<close>

record filesystem =
  dirs :: "ustr set"
  files :: "ustr \<rightharpoonup> nat list"

definition DATA_DIR :: ustr where
  "DATA_DIR = u ''data''"

text \<open>
  \<open>DATA_DIR.mkdir(parents=True, exist_ok=True)\<close>: an existing directory is accepted, an
  existing regular file of that name is an error.
\<close>

definition mkdir :: "filesystem \<Rightarrow> ustr \<Rightarrow> py_exception + filesystem" where
  "mkdir fs p =
     (if files fs p \<noteq> None then Inl (PyExc FileExistsError p)
      else Inr (fs\<lparr>dirs := insert p (dirs fs)\<rparr>))"

text \<open>
  \<open>with path.open("w", encoding="utf-8") as f: json.dump(payload, f, ensure_ascii=False,
  indent=2)\<close>: opening a directory fails, and so does encoding a surrogate. The state
  that a failed call leaves behind is not part of the result.
\<close>

definition dump_to :: "filesystem \<Rightarrow> ustr \<Rightarrow> json \<Rightarrow> py_exception + filesystem" where
  "dump_to fs p v =
     (if p \<in> dirs fs then Inl (PyExc IsADirectoryError p)
      else
        (case utf8_encode (json_dumps v) of
           None \<Rightarrow> Inl (PyExc UnicodeEncodeError (u ''surrogates not allowed''))
         | Some b \<Rightarrow> Inr (fs\<lparr>files := (files fs)(p \<mapsto> b)\<rparr>)))"

definition daily_path :: "datetime \<Rightarrow> ustr" where
  "daily_path t = DATA_DIR @ u ''/'' @ u ''baidu-hotsearch-'' @ strftime_Ymd t @ u ''.json''"

definition latest_path :: ustr where
  "latest_path = DATA_DIR @ u ''/'' @ u ''latest.json''"

text \<open>\<open>save_results\<close>; the clock is read once (line 115) and is an argument here.\<close>

definition save_results ::
  "filesystem \<Rightarrow> datetime \<Rightarrow> HotSearchItem list \<Rightarrow> py_exception + (filesystem \<times> ustr)" where
  "save_results fs timestamp items =
     (case mkdir fs DATA_DIR of
        Inl e \<Rightarrow> Inl e
      | Inr fs1 \<Rightarrow>
          (case dump_to fs1 (daily_path timestamp) (payload timestamp items) of
             Inl e \<Rightarrow> Inl e
           | Inr fs2 \<Rightarrow>
               (case dump_to fs2 latest_path (payload timestamp items) of
                  Inl e \<Rightarrow> Inl e
                | Inr fs3 \<Rightarrow> Inr (fs3, daily_path timestamp))))"

section \<open>The fetcher and the entry point\<close>

record http_response =
  status_code :: nat
  reason :: ustr
  response_url :: ustr
  response_text :: ustr

text \<open>
  What a run meets outside the program: the answer of \<open>requests.get\<close> for a URL, headers
  and timeout (a response, or the exception of a failed connection or a timeout), the
  tree builder, the clock and the filesystem.
\<close>

record world =
  http_get :: "ustr \<Rightarrow> (ustr \<times> ustr) list \<Rightarrow> nat \<Rightarrow> py_exception + http_response"
  soup_builder :: "ustr \<Rightarrow> py_exception + node"
  clock :: datetime
  disk :: filesystem

definition HOT_SEARCH_URL :: ustr where
  "HOT_SEARCH_URL = u ''https://top.baidu.com/board?tab=realtime''"

definition request_headers :: "(ustr \<times> ustr) list" where
  "request_headers =
     [(u ''User-Agent'',
       u ''Mozilla/5.0 (Windows NT 10.0; Win64; x64) '' @
       u ''AppleWebKit/537.36 (KHTML, like Gecko) '' @
       u ''Chrome/120.0.0.0 Safari/537.36'')]"

text \<open>\<open>response.raise_for_status()\<close>: the statuses from 400 to 599 raise \<open>HTTPError\<close>.\<close>

definition raise_for_status :: "http_response \<Rightarrow> py_exception + unit" where
  "raise_for_status r =
     (if 400 \<le> status_code r \<and> status_code r < 500
      then Inl (PyExc HTTPError
             (show_nat (status_code r) @ u '' Client Error: '' @ reason r @
              u '' for url: '' @ response_url r))
      else if 500 \<le> status_code r \<and> status_code r < 600
      then Inl (PyExc HTTPError
             (show_nat (status_code r) @ u '' Server Error: '' @ reason r @
              u '' for url: '' @ response_url r))
      else Inr ())"

definition fetch_hot_search_html :: "world \<Rightarrow> ustr \<Rightarrow> py_exception + ustr" where
  "fetch_hot_search_html w url =
     (case http_get w url request_headers 15 of
        Inl e \<Rightarrow> Inl e
      | Inr response \<Rightarrow>
          (case raise_for_status response of
             Inl e \<Rightarrow> Inl e
           | Inr _ \<Rightarrow> Inr (response_text response)))"

text \<open>
  The outcome of a run: the exit code, the lines printed to the two streams, and the
  filesystem afterwards (\<open>None\<close> after a save that raised).
\<close>

record outcome =
  exit_code :: int
  stdout :: "ustr list"
  stderr :: "ustr list"
  disk_after :: "filesystem option"

definition on_exception :: "py_exception \<Rightarrow> filesystem option \<Rightarrow> outcome" where
  "on_exception exc fs =
     \<lparr> exit_code = 1, stdout = [],
       stderr = [u ''Error while fetching Baidu hot search: '' @ exc_str exc],
       disk_after = fs \<rparr>"

definition main :: "world \<Rightarrow> outcome" where
  "main w =
     (case fetch_hot_search_html w HOT_SEARCH_URL of
        Inl exc \<Rightarrow> on_exception exc (Some (disk w))
      | Inr html \<Rightarrow>
          (case parse_hot_search (soup_builder w) html of
             Inl exc \<Rightarrow> on_exception exc (Some (disk w))
           | Inr items \<Rightarrow>
               if items = [] then
                 \<lparr> exit_code = 1, stdout = [],
                   stderr = [u ''No hot search items were found.''],
                   disk_after = Some (disk w) \<rparr>
               else
                 (case save_results (disk w) (clock w) items of
                    Inl exc \<Rightarrow> on_exception exc None
                  | Inr (fs, daily_file) \<Rightarrow>
                      \<lparr> exit_code = 0,
                        stdout = [u ''Saved '' @ show_nat (length items) @
                                  u '' hot search items to '' @ daily_file],
                        stderr = [],
                        disk_after = Some fs \<rparr>)))"

section \<open>Example documents\<close>

definition ex_div :: "string \<Rightarrow> node list \<Rightarrow> node" where
  "ex_div cls ch = Element (u ''div'') [u cls] [] ch"

definition ex_card :: "node list \<Rightarrow> node" where
  "ex_card ch = ex_div ''category-wrap_iQLoo'' ch"

definition ex_rank :: "string \<Rightarrow> node" where
  "ex_rank txt = ex_div ''index_1Ew5p'' [Text (u txt)]"

definition ex_root :: "node list \<Rightarrow> node" where
  "ex_root ch = Element (u ''[document]'') [] [] ch"

text \<open>A card with every field, and an advertisement block without a rank.\<close>

definition ex_full_card :: node where
  "ex_full_card =
     ex_card
       [ex_rank '' 2 '',
        Element (u ''a'') [u ''c-single-text-ellipsis''] [(u ''href'', u '' https://x/2 '')] [],
        ex_div ''c-single-text-ellipsis'' [Text (u '' Two '')],
        ex_div ''hot-desc_1m_jR'' [Text (u ''about two'')],
        ex_div ''hot-index_1Bl1a'' [Text (u ''4900'')]]"

definition ex_ad_card :: node where
  "ex_ad_card =
     ex_card
       [ex_div ''c-single-text-ellipsis'' [Text (u ''Buy'')],
        ex_div ''hot-index_1Bl1a'' [Text (u ''1'')]]"

text \<open>A card whose link has no \<open>href\<close>, and one whose rank text is \<open>0\<close>.\<close>

definition ex_nohref_card :: node where
  "ex_nohref_card =
     ex_card
       [ex_rank ''1'',
        Element (u ''a'') [u ''c-single-text-ellipsis''] [(u ''title'', u ''t'')] [],
        ex_div ''c-single-text-ellipsis'' [Text (u ''One'')]]"

definition ex_zero_card :: node where
  "ex_zero_card = ex_card [ex_rank ''0'']"

text \<open>Three cards in the document order 2, 1, 3.\<close>

definition ex_board_213 :: node where
  "ex_board_213 =
     ex_root [ex_card [ex_rank ''2''], ex_card [ex_rank ''1''], ex_card [ex_rank ''3'']]"

definition ex_builder :: "node \<Rightarrow> node \<Rightarrow> ustr \<Rightarrow> py_exception + node" where
  "ex_builder a b html = (if html = [] then Inr a else Inr b)"

text \<open>A clock reading, an empty working directory, and entries to save.\<close>

definition ex_time :: datetime where
  "ex_time = \<lparr> year = 2024, month = 1, day = 15, hour = 9, minute = 30, second = 0,
               microsecond = 0 \<rparr>"

definition ex_disk :: filesystem where
  "ex_disk = \<lparr> dirs = {}, files = Map.empty \<rparr>"

definition ex_item :: HotSearchItem where
  "ex_item = \<lparr> rank = 1, title = [20013, 25991], summary = [], hot_score = u ''4900'',
               detail_url = [] \<rparr>"


definition ex_response :: "nat \<Rightarrow> ustr \<Rightarrow> (ustr \<times> ustr) list \<Rightarrow> nat \<Rightarrow> py_exception + http_response" where
  "ex_response status url headers timeout =
     Inr \<lparr> status_code = status, reason = u ''Reason'', response_url = url,
           response_text = u ''<html></html>'' \<rparr>"

definition ex_world :: "nat \<Rightarrow> node \<Rightarrow> world" where
  "ex_world status soup =
     \<lparr> http_get = ex_response status, soup_builder = ex_builder soup soup,
       clock = ex_time, disk = ex_disk \<rparr>"


section \<open>Properties of the extractor\<close>

lemma card_rank_exc:
  "card_rank crd = Inl e \<Longrightarrow> exc_class_of e = AttributeError \<or> exc_class_of e = ValueError"
  by (auto simp: card_rank_def py_int_def split: option.splits)

lemma parse_cards_entries:
  "parse_cards cards acc = Inr (acc @ concat (map card_entries cards))"
proof (induction cards arbitrary: acc)
  case Nil
  show ?case by simp
next
  case (Cons c cs)
  show ?case
  proof (cases "card_rank c")
    case (Inl e)
    with card_rank_exc [OF Inl] Cons show ?thesis
      by (simp add: card_entries_def)
  next
    case (Inr r)
    with Cons show ?thesis
      by (simp add: card_entries_def)
  qed
qed

lemma parse_hot_search_soup:
  "BeautifulSoup html = Inr soup \<Longrightarrow>
   parse_hot_search BeautifulSoup html =
     Inr (sort_key rank (concat (map card_entries (select_cards soup))))"
  by (simp add: parse_hot_search_def parse_cards_entries)

lemmas ex_defs = ex_div_def ex_card_def ex_rank_def ex_root_def ex_full_card_def ex_ad_card_def
  ex_nohref_card_def ex_zero_card_def ex_builder_def
lemmas sel_defs = select_cards_def select_def select_one_def u_def
lemmas int_defs = py_int_def int_space_def py_isspace_def int_signed_def int_magnitude_def
  py_decimal_def decimal_zeros_def py_strip_def

text \<open>
  Claim C1. A card whose rank element is absent, or whose rank text \<open>int\<close> rejects, adds
  no entry: the document gives the same result as a document whose cards are the same with
  that card left out, whatever the other fields of the card hold.
\<close>

theorem rank_required:
  assumes "BeautifulSoup html = Inr soup"
    and "BeautifulSoup html' = Inr soup'"
    and "select_cards soup = cs1 @ crd # cs2"
    and "select_cards soup' = cs1 @ cs2"
    and "select_one (u ''div'') (u ''index_1Ew5p'') crd = None \<or>
         (\<exists>t e. select_one (u ''div'') (u ''index_1Ew5p'') crd = Some t \<and>
                py_int (py_strip (get_text t)) = Inl e)"
  shows "parse_hot_search BeautifulSoup html = parse_hot_search BeautifulSoup html'"
proof -
  from assms(5) have "card_entries crd = []"
    by (auto simp: card_entries_def card_rank_def)
  with assms(1-4) show ?thesis
    by (simp add: parse_hot_search_soup)
qed

theorem rank_required_witness:
  "parse_hot_search (ex_builder (ex_root [ex_full_card]) (ex_root [ex_ad_card, ex_full_card])) (u ''x'') =
   parse_hot_search (ex_builder (ex_root [ex_full_card]) (ex_root [ex_ad_card, ex_full_card])) []"
  using rank_required [of "ex_builder (ex_root [ex_full_card]) (ex_root [ex_ad_card, ex_full_card])"
      "u ''x''" "ex_root [ex_ad_card, ex_full_card]" "[]" "ex_root [ex_full_card]"
      "[]" ex_ad_card "[ex_full_card]"]
  by (simp add: ex_defs sel_defs)


text \<open>
  Claim C2. The extractor returns, and what it returns is the list of entries in document
  order, rearranged so that the ranks ascend; entries of equal rank keep their document
  order, and with distinct ranks the order is strict.
\<close>

theorem rank_sort:
  assumes "BeautifulSoup html = Inr soup"
  shows "\<exists>items out.
           parse_cards (select_cards soup) [] = Inr items \<and>
           parse_hot_search BeautifulSoup html = Inr out \<and>
           sorted (map rank out) \<and>
           mset out = mset items \<and>
           (\<forall>k. filter (\<lambda>i. rank i = k) out = filter (\<lambda>i. rank i = k) items) \<and>
           (distinct (map rank items) \<longrightarrow> sorted_wrt (<) (map rank out))"
proof -
  define items where "items = concat (map card_entries (select_cards soup))"
  define out where "out = sort_key rank items"
  have loop: "parse_cards (select_cards soup) [] = Inr items"
    by (simp add: parse_cards_entries items_def)
  have res: "parse_hot_search BeautifulSoup html = Inr out"
    using assms by (simp add: parse_hot_search_soup items_def out_def)
  have srt: "sorted (map rank out)"
    by (simp add: out_def)
  have perm: "mset out = mset items"
    by (simp add: out_def)
  have stable: "filter (\<lambda>i. rank i = k) out = filter (\<lambda>i. rank i = k) items" for k
    by (simp add: out_def sort_key_stable)
  have strict: "sorted_wrt (<) (map rank out)" if "distinct (map rank items)"
  proof -
    have "mset (map rank out) = mset (map rank items)"
      using perm by simp
    then have "distinct (map rank out)"
      using that by (metis mset_eq_imp_distinct_iff)
    with srt show ?thesis
      by (simp add: strict_sorted_iff)
  qed
  from loop res srt perm stable strict show ?thesis
    by blast
qed


theorem rank_sort_witness:
  "\<exists>items out.
     parse_cards (select_cards ex_board_213) [] = Inr items \<and>
     parse_hot_search (\<lambda>h. Inr ex_board_213) (u ''board'') = Inr out \<and>
     map rank items = [2, 1, 3] \<and> map rank out = [1, 2, 3] \<and>
     sorted_wrt (<) (map rank out)"
proof -
  have loop: "parse_cards (select_cards ex_board_213) [] =
     Inr [card_item 2 (ex_card [ex_rank ''2'']),
          card_item 1 (ex_card [ex_rank ''1'']),
          card_item 3 (ex_card [ex_rank ''3''])]"
    by (simp add: ex_board_213_def ex_defs sel_defs card_rank_def int_defs)
  from rank_sort [of "\<lambda>h. Inr ex_board_213" "u ''board''" ex_board_213]
  obtain items out where
    a: "parse_cards (select_cards ex_board_213) [] = Inr items" and
    b: "parse_hot_search (\<lambda>h. Inr ex_board_213) (u ''board'') = Inr out" and
    c: "distinct (map rank items) \<longrightarrow> sorted_wrt (<) (map rank out)"
    by auto
  from a loop have items: "items = [card_item 2 (ex_card [ex_rank ''2'']),
          card_item 1 (ex_card [ex_rank ''1'']),
          card_item 3 (ex_card [ex_rank ''3''])]"
    by simp
  then have ranks: "map rank items = [2, 1, 3]"
    by (simp add: card_item_def)
  from b loop have "map rank out = [1, 2, 3]"
    by (auto simp: parse_hot_search_def card_item_def)
  with a b c ranks show ?thesis
    by auto
qed

text \<open>
  Claim C3. A card with a rank that \<open>int\<close> accepts yields an entry, and each of the four
  other fields is the empty string when its element is missing and the trimmed text
  (for the link, the trimmed \<open>href\<close>) when it is there, one field independently of the
  others.
\<close>

theorem field_default:
  assumes "BeautifulSoup html = Inr soup"
    and "crd \<in> set (select_cards soup)"
    and "select_one (u ''div'') (u ''index_1Ew5p'') crd = Some t"
    and "py_int (py_strip (get_text t)) = Inr r"
  shows "\<exists>out. parse_hot_search BeautifulSoup html = Inr out \<and>
     \<lparr> rank = r,
       title = (case select_one (u ''div'') (u ''c-single-text-ellipsis'') crd of
                  None \<Rightarrow> [] | Some e \<Rightarrow> py_strip (get_text e)),
       summary = (case select_one (u ''div'') (u ''hot-desc_1m_jR'') crd of
                  None \<Rightarrow> [] | Some e \<Rightarrow> py_strip (get_text e)),
       hot_score = (case select_one (u ''div'') (u ''hot-index_1Bl1a'') crd of
                  None \<Rightarrow> [] | Some e \<Rightarrow> py_strip (get_text e)),
       detail_url = (case select_one (u ''a'') (u ''c-single-text-ellipsis'') crd of
                  None \<Rightarrow> []
                | Some e \<Rightarrow> (case tag_attrs e (u ''href'') of
                              None \<Rightarrow> [] | Some h \<Rightarrow> py_strip h)) \<rparr> \<in> set out"
proof -
  have "card_entries crd = [card_item r crd]"
    using assms(3,4) by (simp add: card_entries_def card_rank_def)
  with assms(2) have "card_item r crd \<in> set (concat (map card_entries (select_cards soup)))"
    by force
  moreover have "card_item r crd = \<lparr> rank = r,
       title = (case select_one (u ''div'') (u ''c-single-text-ellipsis'') crd of
                  None \<Rightarrow> [] | Some e \<Rightarrow> py_strip (get_text e)),
       summary = (case select_one (u ''div'') (u ''hot-desc_1m_jR'') crd of
                  None \<Rightarrow> [] | Some e \<Rightarrow> py_strip (get_text e)),
       hot_score = (case select_one (u ''div'') (u ''hot-index_1Bl1a'') crd of
                  None \<Rightarrow> [] | Some e \<Rightarrow> py_strip (get_text e)),
       detail_url = (case select_one (u ''a'') (u ''c-single-text-ellipsis'') crd of
                  None \<Rightarrow> []
                | Some e \<Rightarrow> (case tag_attrs e (u ''href'') of
                              None \<Rightarrow> [] | Some h \<Rightarrow> py_strip h)) \<rparr>"
    by (simp add: card_item_def tag_text_def link_href_def has_attr_def
        split: option.splits)
  ultimately show ?thesis
    using assms(1) by (simp add: parse_hot_search_soup)
qed

theorem field_default_witness:
  "parse_hot_search (\<lambda>h. Inr (ex_root [ex_ad_card, ex_card [ex_rank ''5''], ex_full_card])) (u ''board'') =
     Inr [\<lparr> rank = 2, title = u ''Two'', summary = u ''about two'', hot_score = u ''4900'',
              detail_url = u ''https://x/2'' \<rparr>,
          \<lparr> rank = 5, title = [], summary = [], hot_score = [], detail_url = [] \<rparr>]"
  using field_default [of "\<lambda>h. Inr (ex_root [ex_ad_card, ex_card [ex_rank ''5''], ex_full_card])"
      "u ''board''" "ex_root [ex_ad_card, ex_card [ex_rank ''5''], ex_full_card]"
      "ex_card [ex_rank ''5'']" "ex_rank ''5''" 5]
  by (simp add: ex_defs sel_defs card_rank_def int_defs parse_hot_search_def
      card_item_def tag_text_def link_href_def has_attr_def)

text \<open>
  Claim C4 as stated (every rank is at least 1) fails: a card whose rank text is \<open>0\<close>
  yields an entry of rank 0.
\<close>

theorem rank_positive_counterexample:
  "parse_hot_search (ex_builder (ex_root [ex_zero_card]) (ex_root [ex_zero_card])) [] =
     Inr [\<lparr> rank = 0, title = [], summary = [], hot_score = [], detail_url = [] \<rparr>] \<and>
   \<not> 1 \<le> rank \<lparr> rank = 0, title = [], summary = [], hot_score = [], detail_url = [] \<rparr>"
  by (simp add: ex_defs sel_defs card_rank_def int_defs parse_hot_search_def
      card_item_def tag_text_def link_href_def)

text \<open>
  Claim C4, amended. The rank of every entry is the integer that \<open>int\<close> returns for the
  trimmed text of the rank element of one of the cards; no sign is required of it.
\<close>

theorem rank_is_parsed_integer:
  assumes "BeautifulSoup html = Inr soup"
    and "parse_hot_search BeautifulSoup html = Inr out"
    and "item \<in> set out"
  shows "\<exists>crd t. crd \<in> set (select_cards soup) \<and>
           select_one (u ''div'') (u ''index_1Ew5p'') crd = Some t \<and>
           py_int (py_strip (get_text t)) = Inr (rank item)"
proof -
  from assms have "item \<in> set (concat (map card_entries (select_cards soup)))"
    by (auto simp: parse_hot_search_soup)
  then obtain crd where crd: "crd \<in> set (select_cards soup)" and "item \<in> set (card_entries crd)"
    by auto
  then obtain r where r: "card_rank crd = Inr r" and item: "item = card_item r crd"
    by (cases "card_rank crd") (simp_all add: card_entries_def)
  from r obtain t where "select_one (u ''div'') (u ''index_1Ew5p'') crd = Some t"
    and "py_int (py_strip (get_text t)) = Inr r"
    by (auto simp: card_rank_def split: option.splits)
  with crd item show ?thesis
    by (auto simp: card_item_def)
qed

theorem rank_is_parsed_integer_witness:
  "\<exists>crd t. crd \<in> set (select_cards (ex_root [ex_zero_card, ex_ad_card])) \<and>
           select_one (u ''div'') (u ''index_1Ew5p'') crd = Some t \<and>
           py_int (py_strip (get_text t)) = Inr 0"
  using rank_is_parsed_integer [of "ex_builder (ex_root [ex_zero_card, ex_ad_card]) (ex_root [])" "[]"
      "ex_root [ex_zero_card, ex_ad_card]"
      "[\<lparr> rank = 0, title = [], summary = [], hot_score = [], detail_url = [] \<rparr>]"
      "\<lparr> rank = 0, title = [], summary = [], hot_score = [], detail_url = [] \<rparr>"]
  by (simp add: ex_defs sel_defs card_rank_def int_defs parse_hot_search_def
      card_item_def tag_text_def link_href_def)

text \<open>
  Claim C10. A card whose link element has no \<open>href\<close> attribute still yields its entry,
  with the empty string as \<open>detail_url\<close>, as for a card without a link element.
\<close>

theorem link_without_href:
  assumes "BeautifulSoup html = Inr soup"
    and "crd \<in> set (select_cards soup)"
    and "card_rank crd = Inr r"
    and "select_one (u ''a'') (u ''c-single-text-ellipsis'') crd = Some a"
    and "\<not> has_attr a (u ''href'')"
  shows "\<exists>out item. parse_hot_search BeautifulSoup html = Inr out \<and> item \<in> set out \<and>
           rank item = r \<and> detail_url item = [] \<and>
           title item = tag_text (select_one (u ''div'') (u ''c-single-text-ellipsis'') crd) \<and>
           summary item = tag_text (select_one (u ''div'') (u ''hot-desc_1m_jR'') crd) \<and>
           hot_score item = tag_text (select_one (u ''div'') (u ''hot-index_1Bl1a'') crd)"
proof -
  have "card_entries crd = [card_item r crd]"
    using assms(3) by (simp add: card_entries_def)
  with assms(2) have "card_item r crd \<in> set (concat (map card_entries (select_cards soup)))"
    by force
  then have "card_item r crd \<in> set (sort_key rank (concat (map card_entries (select_cards soup))))"
    by simp
  moreover have "detail_url (card_item r crd) = []"
    using assms(4,5) by (simp add: card_item_def link_href_def)
  moreover have "parse_hot_search BeautifulSoup html =
      Inr (sort_key rank (concat (map card_entries (select_cards soup))))"
    using assms(1) by (rule parse_hot_search_soup)
  ultimately show ?thesis
    by (intro exI [of _ "sort_key rank (concat (map card_entries (select_cards soup)))"]
        exI [of _ "card_item r crd"]) (simp add: card_item_def)
qed

theorem link_without_href_witness:
  "parse_hot_search (ex_builder (ex_root [ex_nohref_card]) (ex_root [])) [] =
     Inr [\<lparr> rank = 1, title = u ''One'', summary = [], hot_score = [], detail_url = [] \<rparr>]"
  using link_without_href [of "ex_builder (ex_root [ex_nohref_card]) (ex_root [])" "[]"
      "ex_root [ex_nohref_card]" ex_nohref_card 1
      "Element (u ''a'') [u ''c-single-text-ellipsis''] [(u ''title'', u ''t'')] []"]
  by (simp add: ex_defs sel_defs card_rank_def int_defs parse_hot_search_def
      card_item_def tag_text_def link_href_def has_attr_def)

section \<open>Properties of the snapshotter and of the entry point\<close>

declare show_nat.simps [simp del]

lemma show_nat_numeral [simp]:
  "show_nat (numeral k) =
     (if numeral k < (10::nat) then [48 + numeral k]
      else show_nat (numeral k div 10) @ [48 + numeral k mod 10])"
  by (rule show_nat.simps)

lemma show_nat_0 [simp]: "show_nat 0 = [48]"
  by (simp add: show_nat.simps)

lemma show_nat_1 [simp]: "show_nat (Suc 0) = [49]"
  by (simp add: show_nat.simps)

lemma replicate_numeral [simp]:
  "replicate (numeral k) x = x # replicate (pred_numeral k) x"
  by (simp add: numeral_eq_Suc)

lemma ex_daily_path: "daily_path ex_time = u ''data/baidu-hotsearch-20240115.json''"
  by (simp add: daily_path_def ex_time_def strftime_Ymd_def zfill_def DATA_DIR_def u_def)


lemma ex_item_encodable:
  "encodable (title ex_item) \<and> encodable (summary ex_item) \<and>
   encodable (hot_score ex_item) \<and> encodable (detail_url ex_item)"
  by (simp add: ex_item_def encodable_def u_def)



lemma encodable_Nil: "encodable []"
  by (simp add: encodable_def)

lemma encodable_append: "encodable (a @ b) \<longleftrightarrow> encodable a \<and> encodable b"
  by (auto simp: encodable_def)

lemma encodable_Cons: "encodable (c # cs) \<longleftrightarrow> encodable [c] \<and> encodable cs"
  by (auto simp: encodable_def)

lemma encodable_small: "\<forall>c \<in> set s. c < 256 \<Longrightarrow> encodable s"
  by (auto simp: encodable_def)

lemma of_char_small: "of_char c < (256::nat)"
proof -
  have "of_char c = (of_char c :: nat) mod 256"
    by (rule of_char_mod_256 [symmetric])
  also have "\<dots> < 256" by simp
  finally show ?thesis .
qed

lemma encodable_u: "encodable (u s)"
  by (rule encodable_small) (auto simp: u_def of_char_small)

lemma show_nat_small: "\<forall>c \<in> set (show_nat n). c < 256"
proof (induction n rule: show_nat.induct)
  case (1 n)
  show ?case
  proof (cases "n < 10")
    case True
    then show ?thesis by (subst show_nat.simps) simp
  next
    case False
    have "n mod 10 < 10" by simp
    then have "48 + n mod 10 < 256" by linarith
    with False 1 show ?thesis by (subst show_nat.simps) simp
  qed
qed

lemma encodable_show_nat: "encodable (show_nat n)"
  by (rule encodable_small) (rule show_nat_small)

lemma encodable_show_int: "encodable (show_int i)"
  using encodable_show_nat [of "nat (- i)"] encodable_show_nat [of "nat i"]
  by (simp add: show_int_def encodable_def)

lemma encodable_zfill: "encodable s \<Longrightarrow> encodable (zfill w s)"
  by (auto simp: zfill_def encodable_def)

lemma encodable_isoformat: "encodable (isoformat t)"
  by (simp add: isoformat_def encodable_append encodable_u encodable_zfill encodable_show_nat
      encodable_Nil)

lemma encodable_newline_indent: "encodable (newline_indent lvl)"
  by (simp add: newline_indent_def encodable_def)

lemma hex_digit_small: "d < 16 \<Longrightarrow> hex_digit d < 256"
  by (simp add: hex_digit_def)

lemma encodable_escape_char: "encodable [c] \<Longrightarrow> encodable (escape_char c)"
proof (cases "c < 32")
  case True
  then have "c div 16 < 16" "c mod 16 < 16" by simp_all
  then have "hex_digit (c div 16) < 256" "hex_digit (c mod 16) < 256"
    by (simp_all add: hex_digit_small)
  with True show ?thesis
    by (intro encodable_small) (simp add: escape_char_def)
next
  case False
  assume "encodable [c]"
  with False show ?thesis
    by (simp add: escape_char_def encodable_def)
qed

lemma encodable_encode_string: "encodable s \<Longrightarrow> encodable (encode_string s)"
proof -
  assume s: "encodable s"
  have "encodable (concat (map escape_char s))"
    using s
  proof (induction s)
    case Nil
    show ?case by (simp add: encodable_Nil)
  next
    case (Cons c cs)
    from Cons.prems have "encodable [c]" "encodable cs"
      by (simp_all add: encodable_def)
    with Cons.IH show ?case
      by (simp add: encodable_append encodable_escape_char)
  qed
  then show ?thesis
    by (simp add: encode_string_def encodable_def)
qed

lemma encodable_asdict:
  assumes "encodable (title item)" "encodable (summary item)" "encodable (hot_score item)"
    "encodable (detail_url item)"
  shows "encodable (encode lvl (asdict item))"
  using assms
  by (simp add: asdict_def encodable_append encodable_u encodable_newline_indent
      encodable_encode_string encodable_show_int)

lemma encodable_encode_list:
  assumes "\<forall>item \<in> set items. encodable (title item) \<and> encodable (summary item) \<and>
             encodable (hot_score item) \<and> encodable (detail_url item)"
  shows "encodable (encode_list lvl (map asdict items))"
  using assms
proof (induction items)
  case Nil
  show ?case by (simp add: encodable_Nil)
next
  case (Cons a items)
  then show ?case
    by (simp add: encodable_append encodable_asdict encodable_u encodable_newline_indent
        encodable_Nil del: encode.simps)
qed

lemma encodable_payload:
  assumes "\<forall>item \<in> set items. encodable (title item) \<and> encodable (summary item) \<and>
             encodable (hot_score item) \<and> encodable (detail_url item)"
  shows "encodable (json_dumps (payload t items))"
  using encodable_encode_list [OF assms]
  by (simp add: json_dumps_def payload_def encodable_append encodable_u
      encodable_newline_indent encodable_encode_string encodable_isoformat)

lemma utf8_char_Some: "encodable [c] \<Longrightarrow> utf8_char c \<noteq> None"
  by (auto simp: encodable_def utf8_char_def)

lemma utf8_char_None: "\<not> encodable [c] \<Longrightarrow> utf8_char c = None"
  by (auto simp: encodable_def utf8_char_def)

lemma utf8_encode_encodable: "utf8_encode s \<noteq> None \<longleftrightarrow> encodable s"
proof (induction s)
  case Nil
  show ?case by (simp add: encodable_Nil)
next
  case (Cons c cs)
  show ?case
  proof (cases "encodable [c]")
    case True
    with utf8_char_Some [OF True] Cons show ?thesis
      by (auto simp: encodable_Cons [of c cs] split: option.splits)
  next
    case False
    with utf8_char_None [OF False] show ?thesis
      by (simp add: encodable_Cons [of c cs])
  qed
qed

lemma paths_distinct:
  "daily_path t \<noteq> latest_path" "daily_path t \<noteq> DATA_DIR" "latest_path \<noteq> DATA_DIR"
  "latest_path \<noteq> daily_path t" "DATA_DIR \<noteq> daily_path t" "DATA_DIR \<noteq> latest_path"
  by (simp_all add: daily_path_def latest_path_def DATA_DIR_def u_def)

lemma save_results_Inr_iff:
  "save_results fs t items = Inr (fs', p) \<longleftrightarrow>
     files fs DATA_DIR = None \<and> daily_path t \<notin> dirs fs \<and> latest_path \<notin> dirs fs \<and>
     (\<exists>b. utf8_encode (json_dumps (payload t items)) = Some b \<and>
          fs' = fs\<lparr>dirs := insert DATA_DIR (dirs fs),
                    files := (files fs)(daily_path t \<mapsto> b, latest_path \<mapsto> b)\<rparr>) \<and>
     p = daily_path t"
  using paths_distinct
  by (auto simp: save_results_def mkdir_def dump_to_def split: option.splits)


text \<open>
  Claim C8. A second run of the snapshotter with the same entries and the same clock
  reading, on the filesystem the first run left, returns the same path and leaves the
  filesystem as it was: the same two files with the same bytes, and nothing else.
\<close>

theorem snapshot_idempotent:
  assumes "save_results fs t items = Inr (fs1, p)"
  shows "save_results fs1 t items = Inr (fs1, p)"
proof -
  from assms obtain b where
    pre: "files fs DATA_DIR = None" "daily_path t \<notin> dirs fs" "latest_path \<notin> dirs fs" and
    b: "utf8_encode (json_dumps (payload t items)) = Some b" and
    fs1: "fs1 = fs\<lparr>dirs := insert DATA_DIR (dirs fs),
                    files := (files fs)(daily_path t \<mapsto> b, latest_path \<mapsto> b)\<rparr>" and
    p: "p = daily_path t"
    unfolding save_results_Inr_iff by blast
  have "files fs1 DATA_DIR = None" "daily_path t \<notin> dirs fs1" "latest_path \<notin> dirs fs1"
    using pre paths_distinct by (auto simp: fs1)
  moreover have "fs1 = fs1\<lparr>dirs := insert DATA_DIR (dirs fs1),
                    files := (files fs1)(daily_path t \<mapsto> b, latest_path \<mapsto> b)\<rparr>"
    by (simp add: fs1 insert_absorb)
  ultimately show ?thesis
    using b p unfolding save_results_Inr_iff by blast
qed




lemma ex_save:
  "\<exists>fs p. save_results ex_disk ex_time [ex_item] = Inr (fs, p)"
proof -
  have "encodable (json_dumps (payload ex_time [ex_item]))"
    using ex_item_encodable by (intro encodable_payload) simp
  then obtain b where "utf8_encode (json_dumps (payload ex_time [ex_item])) = Some b"
    using utf8_encode_encodable [of "json_dumps (payload ex_time [ex_item])"] by auto
  then show ?thesis
    by (simp add: save_results_Inr_iff ex_disk_def)
qed

theorem snapshot_idempotent_witness:
  "\<exists>fs p. save_results ex_disk ex_time [ex_item] = Inr (fs, p) \<and>
          save_results fs ex_time [ex_item] = Inr (fs, p)"
proof -
  from ex_save obtain fs p where first: "save_results ex_disk ex_time [ex_item] = Inr (fs, p)"
    by blast
  from snapshot_idempotent [OF first] first show ?thesis
    by blast
qed

text \<open>
  Claim C5. The exit code is 0 or 1. It is 0 exactly when the fetch, the extraction and the
  save all succeeded with at least one entry, and then nothing is printed to the error
  stream. Otherwise it is 1 and one line is printed to the error stream: when the fetch,
  the extraction or the save raised, and when no entry was extracted.
\<close>

theorem exit_codes:
  "(exit_code (main w) = 0 \<or> exit_code (main w) = 1) \<and>
   (exit_code (main w) = 0 \<longleftrightarrow>
      (\<exists>html items fs p.
         fetch_hot_search_html w HOT_SEARCH_URL = Inr html \<and>
         parse_hot_search (soup_builder w) html = Inr items \<and> items \<noteq> [] \<and>
         save_results (disk w) (clock w) items = Inr (fs, p) \<and>
         disk_after (main w) = Some fs)) \<and>
   (exit_code (main w) = 1 \<longrightarrow> (\<exists>line. stderr (main w) = [line]) \<and> stdout (main w) = []) \<and>
   (exit_code (main w) = 0 \<longrightarrow> stderr (main w) = [] \<and> (\<exists>line. stdout (main w) = [line])) \<and>
   (\<forall>exc. fetch_hot_search_html w HOT_SEARCH_URL = Inl exc \<longrightarrow>
      exit_code (main w) = 1 \<and>
      stderr (main w) = [u ''Error while fetching Baidu hot search: '' @ exc_str exc]) \<and>
   (\<forall>html exc. fetch_hot_search_html w HOT_SEARCH_URL = Inr html \<and>
      parse_hot_search (soup_builder w) html = Inl exc \<longrightarrow>
      exit_code (main w) = 1 \<and>
      stderr (main w) = [u ''Error while fetching Baidu hot search: '' @ exc_str exc]) \<and>
   (\<forall>html. fetch_hot_search_html w HOT_SEARCH_URL = Inr html \<and>
      parse_hot_search (soup_builder w) html = Inr [] \<longrightarrow>
      exit_code (main w) = 1 \<and> stderr (main w) = [u ''No hot search items were found.'']) \<and>
   (\<forall>html items exc. fetch_hot_search_html w HOT_SEARCH_URL = Inr html \<and>
      parse_hot_search (soup_builder w) html = Inr items \<and> items \<noteq> [] \<and>
      save_results (disk w) (clock w) items = Inl exc \<longrightarrow>
      exit_code (main w) = 1 \<and>
      stderr (main w) = [u ''Error while fetching Baidu hot search: '' @ exc_str exc])"
  by (auto simp: main_def on_exception_def split: sum.splits prod.splits)

text \<open>
  Claim C6. When the request raises, or answers with a status from 400 to 599, the run
  prints one diagnostic to the error stream, exits with code 1 and leaves the filesystem
  as it was.
\<close>

theorem fetch_failure:
  assumes "(\<exists>exc. http_get w HOT_SEARCH_URL request_headers 15 = Inl exc) \<or>
           (\<exists>r. http_get w HOT_SEARCH_URL request_headers 15 = Inr r \<and>
                400 \<le> status_code r \<and> status_code r < 600)"
  shows "\<exists>exc. fetch_hot_search_html w HOT_SEARCH_URL = Inl exc \<and>
           main w = \<lparr> exit_code = 1, stdout = [],
                      stderr = [u ''Error while fetching Baidu hot search: '' @ exc_str exc],
                      disk_after = Some (disk w) \<rparr>"
  using assms
  by (auto simp: main_def on_exception_def fetch_hot_search_html_def raise_for_status_def)

lemmas main_defs = main_def on_exception_def fetch_hot_search_html_def raise_for_status_def
  ex_world_def ex_response_def

theorem fetch_failure_witness:
  "main (ex_world 500 (ex_root [ex_full_card])) =
     \<lparr> exit_code = 1, stdout = [],
       stderr = [u ''Error while fetching Baidu hot search: '' @
                 u ''500 Server Error: Reason for url: https://top.baidu.com/board?tab=realtime''],
       disk_after = Some ex_disk \<rparr>"
  using fetch_failure [of "ex_world 500 (ex_root [ex_full_card])"]
  by (auto simp: main_defs) (simp_all add: u_def HOT_SEARCH_URL_def)

lemma ex_run_parse:
  "parse_hot_search (ex_builder (ex_root [ex_full_card]) (ex_root [ex_full_card]))
     (u ''<html></html>'') =
   Inr [\<lparr> rank = 2, title = u ''Two'', summary = u ''about two'', hot_score = u ''4900'',
              detail_url = u ''https://x/2'' \<rparr>]"
  by (simp add: ex_defs sel_defs card_rank_def int_defs parse_hot_search_def
      card_item_def tag_text_def link_href_def has_attr_def)

lemma ex_run_save:
  "\<exists>fs. save_results ex_disk ex_time
     [\<lparr> rank = 2, title = u ''Two'', summary = u ''about two'', hot_score = u ''4900'',
              detail_url = u ''https://x/2'' \<rparr>] = Inr (fs, u ''data/baidu-hotsearch-20240115.json'')"
proof -
  have "encodable (json_dumps (payload ex_time [\<lparr> rank = 2, title = u ''Two'', summary = u ''about two'', hot_score = u ''4900'',
              detail_url = u ''https://x/2'' \<rparr>]))"
    by (intro encodable_payload) (simp add: encodable_u)
  then obtain b where "utf8_encode (json_dumps (payload ex_time [\<lparr> rank = 2, title = u ''Two'', summary = u ''about two'', hot_score = u ''4900'',
              detail_url = u ''https://x/2'' \<rparr>])) = Some b"
    by (metis utf8_encode_encodable option.exhaust)
  then show ?thesis
    by (simp add: save_results_Inr_iff ex_disk_def ex_daily_path)
qed

theorem exit_codes_witness:
  "exit_code (main (ex_world 200 (ex_root [ex_full_card]))) = 0 \<and>
   stdout (main (ex_world 200 (ex_root [ex_full_card]))) =
     [u ''Saved 1 hot search items to data/baidu-hotsearch-20240115.json''] \<and>
   stderr (main (ex_world 200 (ex_root [ex_full_card]))) = [] \<and>
   main (ex_world 200 (ex_root [ex_ad_card])) =
     \<lparr> exit_code = 1, stdout = [], stderr = [u ''No hot search items were found.''],
       disk_after = Some ex_disk \<rparr>"
proof -
  from ex_run_save obtain fs where saved: "save_results ex_disk ex_time
     [\<lparr> rank = 2, title = u ''Two'', summary = u ''about two'', hot_score = u ''4900'',
              detail_url = u ''https://x/2'' \<rparr>] = Inr (fs, u ''data/baidu-hotsearch-20240115.json'')"
    by blast
  have fetched: "fetch_hot_search_html (ex_world 200 (ex_root [ex_full_card])) HOT_SEARCH_URL =
      Inr (u ''<html></html>'')"
    by (simp add: fetch_hot_search_html_def raise_for_status_def ex_world_def ex_response_def)
  have run: "main (ex_world 200 (ex_root [ex_full_card])) =
     \<lparr> exit_code = 0,
       stdout = [u ''Saved 1 hot search items to data/baidu-hotsearch-20240115.json''],
       stderr = [], disk_after = Some fs \<rparr>"
    unfolding main_def fetched
    by (simp add: ex_world_def ex_run_parse saved) (simp add: u_def)
  have empty: "main (ex_world 200 (ex_root [ex_ad_card])) =
     \<lparr> exit_code = 1, stdout = [], stderr = [u ''No hot search items were found.''],
       disk_after = Some ex_disk \<rparr>"
    by (simp add: main_defs ex_defs sel_defs card_rank_def parse_hot_search_def)
  from exit_codes [of "ex_world 200 (ex_root [ex_full_card])"] run empty show ?thesis
    by simp
qed

section \<open>Reading the snapshot back\<close>











































end
